theory Spec2Isabelle
  imports Complex_Main "HOL-Library.AList"
begin

section \<open>JavaScript values\<close>

text \<open>
  The client is TypeScript that runs on a JavaScript engine; the values it handles at run
  time (\<^verbatim>\<open>unknown\<close> in the source) are modelled by \<open>jsval\<close>.  A finite number is
  modelled by its exact rational value; \<open>NaN\<close> and the two infinities are separate.
  Objects (\<^verbatim>\<open>Record<string, unknown>\<close>) that come out of \<^verbatim>\<open>JSON.parse\<close> or go
  into \<^verbatim>\<open>JSON.stringify\<close> are lists of own properties in the order in which the keys
  were first inserted.  \<open>JBuiltin\<close> is a function or an object of the engine itself, such
  as the \<^verbatim>\<open>Object\<close> constructor that every plain object inherits under the name
  \<^verbatim>\<open>constructor\<close>; it is known by its name only.  Such a value arises where the code
  reads an inherited property; no value that comes out of \<^verbatim>\<open>JSON.parse\<close> contains one.
\<close>

datatype jsnum = Fin rat | NaN | PosInf | NegInf

datatype jsval =
    JUndefined
  | JNull
  | JBool bool
  | JNum jsnum
  | JStr string
  | JArr "jsval list"
  | JObj "(string \<times> jsval) list"
  | JBuiltin string

type_synonym jsobj = "(string \<times> jsval) list"

text \<open>Truthiness, as \<^verbatim>\<open>!v\<close>, \<^verbatim>\<open>v || d\<close> and \<^verbatim>\<open>if (v)\<close> read it.\<close>

fun truthy :: "jsval \<Rightarrow> bool" where
  "truthy JUndefined = False"
| "truthy JNull = False"
| "truthy (JBool b) = b"
| "truthy (JNum n) = (n \<noteq> NaN \<and> n \<noteq> Fin 0)"
| "truthy (JStr s) = (s \<noteq> [])"
| "truthy (JArr xs) = True"
| "truthy (JObj ps) = True"
| "truthy (JBuiltin b) = True"


text \<open>\<^verbatim>\<open>v != null\<close> is false exactly for \<^verbatim>\<open>null\<close> and \<^verbatim>\<open>undefined\<close>.\<close>

definition is_nil :: "jsval \<Rightarrow> bool" where
  "is_nil v = (v = JNull \<or> v = JUndefined)"

fun Array_isArray :: "jsval \<Rightarrow> bool" where
  "Array_isArray (JArr xs) = True"
| "Array_isArray v = False"

fun Number_isInteger :: "jsval \<Rightarrow> bool" where
  "Number_isInteger (JNum (Fin r)) = (of_int \<lfloor>r\<rfloor> = r)"
| "Number_isInteger v = False"

text \<open>\<^verbatim>\<open>xs[i]\<close> on an array: \<^verbatim>\<open>undefined\<close> out of range.\<close>

definition arr_at :: "jsval list \<Rightarrow> nat \<Rightarrow> jsval" where
  "arr_at xs i = (if i < length xs then xs ! i else JUndefined)"

subsection \<open>Objects and the order of their own keys\<close>

text \<open>
  \<^verbatim>\<open>Object.keys\<close>, \<^verbatim>\<open>Object.entries\<close> and the spread \<^verbatim>\<open>{...o}\<close> enumerate the own
  keys of an object with the array indices first, in ascending numeric order, and
  then the other string keys in the order of their insertion.  An array index is a
  canonical decimal numeral below \<open>2^32 - 1\<close>.
\<close>

definition is_digit :: "char \<Rightarrow> bool" where
  "is_digit c = (48 \<le> (of_char c :: nat) \<and> (of_char c :: nat) \<le> 57)"

definition dec_val :: "string \<Rightarrow> nat" where
  "dec_val s = foldl (\<lambda>n c. 10 * n + (of_char c - 48)) 0 s"

definition is_array_index :: "string \<Rightarrow> bool" where
  "is_array_index s =
     (s \<noteq> [] \<and> list_all is_digit s \<and> (s = ''0'' \<or> hd s \<noteq> CHR ''0'')
      \<and> dec_val s < 2 ^ 32 - 1)"

definition own_keys :: "string list \<Rightarrow> string list" where
  "own_keys ks = sort_key dec_val (filter is_array_index ks)
                 @ filter (\<lambda>k. \<not> is_array_index k) ks"

text \<open>
  The value of an own property, \<^verbatim>\<open>undefined\<close> when the object has no own property of
  that name.  This is what \<^verbatim>\<open>Object.entries\<close> and the spread read; a property access
  \<^verbatim>\<open>obj[key]\<close>, which falls back on the prototype, is \<open>obj_read\<close> below.
\<close>

definition own_get :: "jsobj \<Rightarrow> string \<Rightarrow> jsval" where
  "own_get obj k = (case map_of obj k of None \<Rightarrow> JUndefined | Some v \<Rightarrow> v)"

text \<open>
  Defining an own property, as \<^verbatim>\<open>Object.fromEntries\<close> and the spread do it: the key is
  created at the end, or its value replaced in place.
\<close>

definition obj_set :: "string \<Rightarrow> jsval \<Rightarrow> jsobj \<Rightarrow> jsobj" where
  "obj_set k v obj = AList.update k v obj"

definition Object_keys :: "jsobj \<Rightarrow> string list" where
  "Object_keys obj = own_keys (map fst obj)"

definition Object_entries :: "jsobj \<Rightarrow> (string \<times> jsval) list" where
  "Object_entries obj = map (\<lambda>k. (k, own_get obj k)) (Object_keys obj)"

definition Object_fromEntries :: "(string \<times> jsval) list \<Rightarrow> jsobj" where
  "Object_fromEntries es = fold (\<lambda>(k, v). obj_set k v) es []"


section \<open>Errors, requests and responses\<close>

text \<open>
  An \<^verbatim>\<open>Error\<close> object with the optional properties of \<^verbatim>\<open>APIError\<close>, and the
  property \<^verbatim>\<open>error\<close> that \<^verbatim>\<open>_cb\<close> inspects.  \<open>None\<close> stands for a property that
  was never assigned.
\<close>

record APIError =
  message :: string
  status :: "nat option"
  statustext :: "string option"
  code :: "jsval option"
  response :: "jsval option"
  error :: "jsval option"

definition new_Error :: "string \<Rightarrow> APIError" where
  "new_Error msg = \<lparr> message = msg, status = None, statustext = None,
                      code = None, response = None, error = None \<rparr>"

text \<open>
  JavaScript can throw any value, and a promise can reject with any value: the casts
  \<^verbatim>\<open>err as Error\<close> of the source are not checked at run time.  What is thrown is
  either an error object or another value, which may be falsy (\<^verbatim>\<open>throw undefined\<close>,
  \<^verbatim>\<open>Promise.reject(0)\<close>).  An error object is truthy.
\<close>

datatype thrown = Err APIError | Thrown jsval

fun truthy_thrown :: "thrown \<Rightarrow> bool" where
  "truthy_thrown (Err e) = True"
| "truthy_thrown (Thrown v) = truthy v"

text \<open>
  \<^verbatim>\<open>RequestInit\<close> as the three request builders fill it: \<open>signal\<close> is the signal that
  \<^verbatim>\<open>AbortSignal.timeout\<close> returned, known by its delay; a GET has no headers and no body.
\<close>

record RequestInit =
  http_method :: string
  signal :: int
  headers :: "(string \<times> string) list"
  body :: "string option"

text \<open>
  What the pipeline reads of a \<^verbatim>\<open>Response\<close>: \<^verbatim>\<open>ok\<close>, \<^verbatim>\<open>status\<close>, \<^verbatim>\<open>statusText\<close> and
  the outcome of \<^verbatim>\<open>await resp.text()\<close>, which may reject.
\<close>

record Response =
  resp_ok :: bool
  resp_status :: nat
  resp_statusText :: string
  resp_text :: "thrown + string"

text \<open>The transport: \<^verbatim>\<open>await fetch(url, reqOpts)\<close> yields a response or rejects.\<close>

type_synonym FetchFn = "string \<Rightarrow> RequestInit \<Rightarrow> thrown + Response"

section \<open>The client and its constructor\<close>

definition BASE_TIMEOUT :: int where
  "BASE_TIMEOUT = 15000"

definition API_URL :: string where
  "API_URL = ''https://api.bitfinex.com''"

text \<open>
  \<^verbatim>\<open>RESTv2Options\<close>: every option may be missing (\<open>None\<close>).  \<open>timeout\<close> is
  a run-time value, since the check of the constructor is a check of its run-time type
  (the tests pass a string and \<^verbatim>\<open>NaN\<close>); a timeout that is not supplied is
  \<open>JUndefined\<close>.
\<close>

record RESTv2Options =
  affCode :: jsval
  apiKey :: "string option"
  apiSecret :: "string option"
  authToken :: "string option"
  company :: "string option"
  url :: "string option"
  transform :: "bool option"
  timeout :: jsval
  fetch :: "FetchFn option"

text \<open>The default argument \<^verbatim>\<open>opts = {}\<close>.\<close>

definition no_opts :: RESTv2Options where
  "no_opts = \<lparr> affCode = JUndefined, apiKey = None, apiSecret = None, authToken = None,
                company = None, url = None, transform = None, timeout = JUndefined,
                fetch = None \<rparr>"

text \<open>The private fields \<^verbatim>\<open>this._url\<close>, \<^verbatim>\<open>this._apiKey\<close>, ... of a client.\<close>

record RESTv2_client =
  this_url :: string
  this_apiKey :: string
  this_apiSecret :: string
  this_authToken :: string
  this_company :: string
  this_transform :: bool
  this_affCode :: jsval
  this_timeout :: int
  this_fetch :: FetchFn

text \<open>\<^verbatim>\<open>opts.x || dflt\<close> for a string option.\<close>

definition str_or :: "string option \<Rightarrow> string \<Rightarrow> string" where
  "str_or v dflt = (case v of None \<Rightarrow> dflt | Some s \<Rightarrow> if s = [] then dflt else s)"

fun int_of_num :: "jsval \<Rightarrow> int" where
  "int_of_num (JNum (Fin r)) = \<lfloor>r\<rfloor>"
| "int_of_num v = 0"

definition RESTv2_checkOpts :: "RESTv2Options \<Rightarrow> APIError + unit" where
  "RESTv2_checkOpts opts =
     (if \<not> is_nil (timeout opts) \<and> \<not> Number_isInteger (timeout opts)
      then Inl (new_Error ''ERR_TIMEOUT_DATA_TYPE_ERROR'')
      else Inr ())"

text \<open>
  The constructor.  A \<^verbatim>\<open>throw\<close> in it is the value \<open>Inl\<close>: the constructor is not
  an \<^verbatim>\<open>async\<close> function, so nothing of it is a promise.  \<open>globalThis_fetch\<close> is the
  platform's own \<^verbatim>\<open>fetch\<close>.
\<close>

definition new_RESTv2 :: "FetchFn \<Rightarrow> RESTv2Options \<Rightarrow> APIError + RESTv2_client" where
  "new_RESTv2 globalThis_fetch opts =
     (case RESTv2_checkOpts opts of
        Inl e \<Rightarrow> Inl e
      | Inr u \<Rightarrow> Inr \<lparr>
          this_url = str_or (url opts) API_URL,
          this_apiKey = str_or (apiKey opts) [],
          this_apiSecret = str_or (apiSecret opts) [],
          this_authToken = str_or (authToken opts) [],
          this_company = str_or (company opts) [],
          this_transform = (transform opts = Some True),
          this_affCode = affCode opts,
          this_timeout = (if Number_isInteger (timeout opts)
                          then int_of_num (timeout opts) else BASE_TIMEOUT),
          this_fetch = (case fetch opts of None \<Rightarrow> globalThis_fetch | Some f \<Rightarrow> f) \<rparr>)"

text \<open>A transport that always rejects, for closed examples.\<close>

definition no_network :: FetchFn where
  "no_network u r = Inl (Err (new_Error ''network unreachable''))"


section \<open>The platform\<close>

text \<open>
  The functions of the engine and of the package \<^verbatim>\<open>bfx-api-node-util\<close> that the client
  calls are parameters of the model: \<^verbatim>\<open>JSON.parse\<close> (which throws on a text that is not
  JSON), \<^verbatim>\<open>JSON.stringify\<close>, the signer \<^verbatim>\<open>genAuthSig(secret, payload).sig\<close>, the value
  that \<^verbatim>\<open>nonce()\<close> returns in the call at hand, the conversion \<^verbatim>\<open>String(v)\<close> by which a
  value that is not a string becomes a property key or a part of a string,
  \<^verbatim>\<open>AbortSignal.timeout(delay)\<close>, which returns a signal (known by its delay) or throws a
  \<^verbatim>\<open>RangeError\<close> for a delay that it does not accept, and the lookup of a property along
  a prototype chain: \<open>Get_inherited env p k\<close> is what an object whose prototype is \<open>p\<close>
  inherits under the name \<open>k\<close>, where \<open>None\<close> is the prototype of every object literal,
  \<^verbatim>\<open>Object.prototype\<close>, and \<open>Some v\<close> a prototype that was set to the value \<open>v\<close>
  (\<^verbatim>\<open>null\<close>: no prototype at all).
\<close>

record platform =
  JSON_parse :: "string \<Rightarrow> thrown + jsval"
  JSON_stringify :: "jsobj \<Rightarrow> string"
  genAuthSig :: "string \<Rightarrow> string \<Rightarrow> string"
  nonce :: string
  ToString :: "jsval \<Rightarrow> string"
  AbortSignal_timeout :: "int \<Rightarrow> thrown + int"
  Get_inherited :: "jsval option \<Rightarrow> string \<Rightarrow> jsval"

text \<open>
  A value used as a property key (\<^verbatim>\<open>obj[c as string]\<close>) or added to a string
  (\<^verbatim>\<open>v + s\<close>): a string is taken as it is, any other value is converted by the engine.
\<close>

definition to_key :: "platform \<Rightarrow> jsval \<Rightarrow> string" where
  "to_key env v = (case v of JStr s \<Rightarrow> s | _ \<Rightarrow> ToString env v)"

subsection \<open>Objects that the code builds by assignment\<close>

text \<open>
  An object that starts as the literal \<^verbatim>\<open>{}\<close> and is filled by assignments
  \<^verbatim>\<open>obj[key] = v\<close>: its own properties and its prototype.  A read \<^verbatim>\<open>obj[key]\<close> yields the
  own property if there is one and what the object inherits otherwise, so that
  \<^verbatim>\<open>({})['constructor']\<close> is a function.

  An assignment creates or replaces an own property, except where it finds a setter on the
  prototype chain.  The one setter is that of the accessor \<^verbatim>\<open>__proto__\<close> of
  \<^verbatim>\<open>Object.prototype\<close>: it replaces the prototype of the object when the value is an object
  or \<^verbatim>\<open>null\<close> and does nothing otherwise; no own property is created.  The assignment
  does not reach the accessor when the object has an own property \<^verbatim>\<open>__proto__\<close> already,
  when its prototype has been replaced by \<^verbatim>\<open>null\<close>, and when its prototype is a parsed
  object that has an own property of that name (\<^verbatim>\<open>JSON.parse\<close> creates one for the key
  \<^verbatim>\<open>__proto__\<close>); the properties that arrays and parsed objects have or inherit
  otherwise are writable data properties.
\<close>

record js_object =
  props :: jsobj
  proto :: "jsval option"


definition obj_read :: "platform \<Rightarrow> js_object \<Rightarrow> string \<Rightarrow> jsval" where
  "obj_read env obj k =
     (case map_of (props obj) k of
        Some v \<Rightarrow> v
      | None \<Rightarrow> Get_inherited env (proto obj) k)"

fun is_object_or_null :: "jsval \<Rightarrow> bool" where
  "is_object_or_null JNull = True"
| "is_object_or_null (JArr xs) = True"
| "is_object_or_null (JObj ps) = True"
| "is_object_or_null (JBuiltin b) = True"
| "is_object_or_null v = False"

fun inherits_accessor :: "jsval option \<Rightarrow> bool" where
  "inherits_accessor None = True"
| "inherits_accessor (Some JNull) = False"
| "inherits_accessor (Some (JObj ps)) = (map_of ps ''__proto__'' = None)"
| "inherits_accessor (Some v) = True"

definition obj_assign :: "string \<Rightarrow> jsval \<Rightarrow> js_object \<Rightarrow> js_object" where
  "obj_assign k v obj =
     (if k = ''__proto__'' \<and> map_of (props obj) k = None \<and> inherits_accessor (proto obj)
      then (if is_object_or_null v then obj\<lparr> proto := Some v \<rparr> else obj)
      else obj\<lparr> props := obj_set k v (props obj) \<rparr>)"

text \<open>A number in a template literal: the decimal numeral of a natural number.\<close>

fun show_nat :: "nat \<Rightarrow> string" where
  "show_nat n = (if n < 10 then [char_of (48 + n)]
                 else show_nat (n div 10) @ [char_of (48 + n mod 10)])"

declare show_nat.simps [simp del]

section \<open>The request pipeline\<close>

text \<open>
  What the caller observes of a call: the promise it gets back, settled, and the calls
  that were made on the way to the signer, to the transport and to the caller's
  callback, in their order.
\<close>

datatype outcome = Resolved jsval | Rejected thrown

datatype event =
    Signed string string
  | Fetched string RequestInit
  | Called "thrown option" jsval

text \<open>
  A synchronous call returns a plain value or a promise, or it throws.  A promise is
  known by the way it settles.
\<close>

datatype ret = Plain jsval | Settled outcome

text \<open>
  The callback argument of a call: absent (\<^verbatim>\<open>null\<close> or \<^verbatim>\<open>undefined\<close>), a value that is
  not a function, or a function.  A callback function is called with \<^verbatim>\<open>(err)\<close> or with
  \<^verbatim>\<open>(null, res)\<close>; it returns a plain value, returns a promise (as every \<^verbatim>\<open>async\<close>
  function does) or throws.
\<close>

datatype Callback =
    NoCallback
  | NotCallable jsval
  | Callable "thrown option \<Rightarrow> jsval \<Rightarrow> thrown + ret"

text \<open>
  A transformer: \<^verbatim>\<open>null\<close>, a class (\<^verbatim>\<open>isClass\<close> holds; \<^verbatim>\<open>new M(row, this)\<close> returns the
  instance or throws) or a plain function (\<^verbatim>\<open>typeof tr === 'function'\<close>).
\<close>

datatype Transformer =
    NoTransformer
  | ModelClass "jsval \<Rightarrow> RESTv2_client \<Rightarrow> thrown + jsval"
  | PlainFunction "jsval \<Rightarrow> thrown + jsval"

text \<open>
  \<open>settle\<close> is the promise of an \<^verbatim>\<open>async\<close> function whose body returned that value
  (a returned promise is adopted) or threw.
\<close>

fun settle :: "thrown + ret \<Rightarrow> outcome" where
  "settle (Inl e) = Rejected e"
| "settle (Inr (Plain v)) = Resolved v"
| "settle (Inr (Settled p)) = p"

subsection \<open>\<^verbatim>\<open>omitNil\<close>\<close>

definition omitNil :: "jsobj \<Rightarrow> jsobj" where
  "omitNil obj = Object_fromEntries (filter (\<lambda>(k, v). \<not> is_nil v) (Object_entries obj))"

subsection \<open>\<^verbatim>\<open>_apiError\<close>\<close>

definition RESTv2_apiError :: "platform \<Rightarrow> Response \<Rightarrow> string \<Rightarrow> APIError" where
  "RESTv2_apiError env resp rawBody =
     (let err = (new_Error (''HTTP code '' @ show_nat (resp_status resp) @ '' ''
                   @ (if resp_statusText resp = [] then [] else resp_statusText resp)))
                \<lparr> status := Some (resp_status resp),
                  statustext := Some (resp_statusText resp) \<rparr>
      in case JSON_parse env rawBody of
           Inr parsed \<Rightarrow>
             (case parsed of
                JArr xs \<Rightarrow>
                  if length xs \<ge> 3
                  then err\<lparr> code := Some (arr_at xs 1), response := Some (arr_at xs 2) \<rparr>
                  else err\<lparr> response := Some parsed \<rparr>
              | _ \<Rightarrow> err\<lparr> response := Some parsed \<rparr>)
         | Inl e \<Rightarrow> err\<lparr> response := Some (JStr rawBody) \<rparr>)"

subsection \<open>\<^verbatim>\<open>_cb\<close>\<close>

definition NONCE_HELP :: string where
  "NONCE_HELP = '' see https://github.com/bitfinexcom/bitfinex-api-node/blob/master/README.md#nonce-too-small for help''"

text \<open>
  The guard of the enrichment:
  \<^verbatim>\<open>errRecord.error && Array.isArray(errRecord.error) && errRecord.error[1] === 10114\<close>.
\<close>

definition nonce_code :: "jsval \<Rightarrow> bool" where
  "nonce_code v =
     (truthy v \<and> (case v of JArr xs \<Rightarrow> arr_at xs 1 = JNum (Fin 10114) | _ \<Rightarrow> False))"

definition nonce_too_small :: "APIError \<Rightarrow> bool" where
  "nonce_too_small err = (case error err of None \<Rightarrow> False | Some v \<Rightarrow> nonce_code v)"

definition enrich :: "APIError \<Rightarrow> APIError" where
  "enrich err = (if nonce_too_small err
                 then err\<lparr> message := message err @ NONCE_HELP \<rparr> else err)"

text \<open>
  The same on a truthy value that is not an error object.  A plain object is read and
  written like every object; \<^verbatim>\<open>err.message += s\<close> assigns \<^verbatim>\<open>err.message + s\<close>, the
  concatenation of two strings.  Strings, numbers, booleans, arrays and functions have no
  property \<^verbatim>\<open>error\<close>, so the guard fails on them.
\<close>

definition enrich_value :: "platform \<Rightarrow> jsval \<Rightarrow> jsval" where
  "enrich_value env v =
     (case v of
        JObj ps \<Rightarrow>
          (let errRecord = \<lparr> props = ps, proto = None \<rparr>
           in if nonce_code (obj_read env errRecord ''error'')
              then JObj (props (obj_assign ''message''
                          (JStr (to_key env (obj_read env errRecord ''message'') @ NONCE_HELP))
                          errRecord))
              else v)
      | _ \<Rightarrow> v)"

fun enrich_thrown :: "platform \<Rightarrow> thrown \<Rightarrow> thrown" where
  "enrich_thrown env (Err e) = Err (enrich e)"
| "enrich_thrown env (Thrown v) = Thrown (enrich_value env v)"

text \<open>
  The test \<^verbatim>\<open>if (err)\<close> of \<^verbatim>\<open>_cb\<close>, with the enrichment inside it: the error that
  \<^verbatim>\<open>_cb\<close> reports.  There is none when \<open>err\<close> is \<^verbatim>\<open>null\<close> (\<open>None\<close>) and none when it is
  another falsy value.
\<close>

fun reported :: "platform \<Rightarrow> thrown option \<Rightarrow> thrown option" where
  "reported env None = None"
| "reported env (Some x) = (if truthy_thrown x then Some (enrich_thrown env x) else None)"

text \<open>
  \<^verbatim>\<open>_cb(err, res, cb)\<close>: with the events of the call.  With a callback function the
  result is what the callback returns: \<open>Inl\<close> when it throws, a promise when it returns one.
\<close>

definition RESTv2_cb ::
    "platform \<Rightarrow> thrown option \<Rightarrow> jsval \<Rightarrow> Callback \<Rightarrow> event list \<times> (thrown + ret)" where
  "RESTv2_cb env err res cb =
     (case reported env err of
        Some e \<Rightarrow>
          (case cb of
             Callable f \<Rightarrow> ([Called (Some e) JUndefined], f (Some e) JUndefined)
           | _ \<Rightarrow> ([], Inr (Settled (Rejected e))))
      | None \<Rightarrow>
          (case cb of
             Callable f \<Rightarrow> ([Called None res], f None res)
           | _ \<Rightarrow> ([], Inr (Settled (Resolved res)))))"

subsection \<open>\<^verbatim>\<open>_classTransform\<close> and \<^verbatim>\<open>_doTransform\<close>\<close>

text \<open>\<^verbatim>\<open>data.map(row => new ModelClass(row, this))\<close>: the first constructor that throws ends it.\<close>

fun map_new :: "('a \<Rightarrow> thrown + 'b) \<Rightarrow> 'a list \<Rightarrow> thrown + 'b list" where
  "map_new f [] = Inr []"
| "map_new f (x # xs) =
     (case f x of
        Inl e \<Rightarrow> Inl e
      | Inr y \<Rightarrow> (case map_new f xs of Inl e \<Rightarrow> Inl e | Inr ys \<Rightarrow> Inr (y # ys)))"

text \<open>\<^verbatim>\<open>Array.isArray(data) && data.length === 0\<close>.\<close>

fun empty_array :: "jsval \<Rightarrow> bool" where
  "empty_array (JArr xs) = (length xs = 0)"
| "empty_array v = False"

text \<open>\<^verbatim>\<open>Array.isArray(data) && Array.isArray(data[0])\<close>.\<close>

fun array_of_arrays :: "jsval \<Rightarrow> bool" where
  "array_of_arrays (JArr xs) = Array_isArray (arr_at xs 0)"
| "array_of_arrays v = False"

fun elems :: "jsval \<Rightarrow> jsval list" where
  "elems (JArr xs) = xs"
| "elems v = []"

text \<open>The parameter \<open>M\<close> is a class, so \<^verbatim>\<open>!ModelClass\<close> is false.\<close>

definition RESTv2_classTransform ::
    "RESTv2_client \<Rightarrow> jsval \<Rightarrow> (jsval \<Rightarrow> RESTv2_client \<Rightarrow> thrown + jsval) \<Rightarrow> thrown + jsval" where
  "RESTv2_classTransform this data M =
     (if \<not> truthy data \<or> empty_array data then Inr (JArr [])
      else if \<not> this_transform this then Inr data
      else if array_of_arrays data
           then map_sum id JArr (map_new (\<lambda>row. M row this) (elems data))
           else M data this)"

definition RESTv2_doTransform :: "RESTv2_client \<Rightarrow> jsval \<Rightarrow> Transformer \<Rightarrow> thrown + jsval" where
  "RESTv2_doTransform this data transformer =
     (case transformer of
        ModelClass M \<Rightarrow> RESTv2_classTransform this data M
      | PlainFunction f \<Rightarrow> f data
      | NoTransformer \<Rightarrow> Inr data)"

subsection \<open>\<^verbatim>\<open>_response\<close>\<close>

text \<open>
  The transform step of \<^verbatim>\<open>_response\<close>:
  \<^verbatim>\<open>this._transform ? this._doTransform(data, transformer) : data\<close>.
\<close>

definition transform_step :: "RESTv2_client \<Rightarrow> jsval \<Rightarrow> Transformer \<Rightarrow> thrown + jsval" where
  "transform_step this data transformer =
     (if this_transform this then RESTv2_doTransform this data transformer else Inr data)"

text \<open>
  The \<^verbatim>\<open>try\<close> block of \<^verbatim>\<open>_response\<close> holds the transform step and the call
  \<^verbatim>\<open>this._cb(null, res, cb)\<close>; whatever either throws reaches
  \<^verbatim>\<open>this._cb(e, null, cb)\<close> in the \<^verbatim>\<open>catch\<close> block, and what that call throws leaves the
  method.  A promise that a call of \<^verbatim>\<open>_cb\<close> returns is returned as it is.
\<close>

definition RESTv2_response ::
    "platform \<Rightarrow> RESTv2_client \<Rightarrow> jsval \<Rightarrow> Transformer \<Rightarrow> Callback
       \<Rightarrow> event list \<times> (thrown + ret)" where
  "RESTv2_response env this data transformer cb =
     (case transform_step this data transformer of
        Inl e \<Rightarrow> RESTv2_cb env (Some e) JNull cb
      | Inr res \<Rightarrow>
          (case RESTv2_cb env None res cb of
             (t, Inr r) \<Rightarrow> (t, Inr r)
           | (t, Inl e) \<Rightarrow>
               (case RESTv2_cb env (Some e) JNull cb of (t', r) \<Rightarrow> (t @ t', r))))"

subsection \<open>\<^verbatim>\<open>_request\<close>\<close>

text \<open>
  The \<^verbatim>\<open>catch\<close> block of \<^verbatim>\<open>_request\<close>, after the events \<open>t\<close>: the promise of the
  \<^verbatim>\<open>async\<close> method is what \<^verbatim>\<open>this._cb(err, null, cb)\<close> returns or throws.  The caught
  value is whatever was thrown or rejected; \<^verbatim>\<open>_cb\<close> takes a falsy one for no error.
\<close>

definition request_catch ::
    "platform \<Rightarrow> event list \<Rightarrow> thrown \<Rightarrow> Callback \<Rightarrow> event list \<times> outcome" where
  "request_catch env t err cb =
     (case RESTv2_cb env (Some err) JNull cb of (t', r) \<Rightarrow> (t @ t', settle r))"

text \<open>
  A promise that \<^verbatim>\<open>_response\<close> returns is returned without \<^verbatim>\<open>await\<close>: its rejection is
  not caught by the \<^verbatim>\<open>catch\<close> block but becomes the rejection of the call.
\<close>

definition RESTv2_request ::
    "platform \<Rightarrow> RESTv2_client \<Rightarrow> string \<Rightarrow> RequestInit \<Rightarrow> Transformer \<Rightarrow> Callback
       \<Rightarrow> event list \<times> outcome" where
  "RESTv2_request env this u reqOpts transformer cb =
     (case this_fetch this u reqOpts of
        Inl err \<Rightarrow> request_catch env [Fetched u reqOpts] err cb
      | Inr resp \<Rightarrow>
          (case resp_text resp of
             Inl err \<Rightarrow> request_catch env [Fetched u reqOpts] err cb
           | Inr raw \<Rightarrow>
               if \<not> resp_ok resp
               then request_catch env [Fetched u reqOpts] (Err (RESTv2_apiError env resp raw)) cb
               else (case JSON_parse env raw of
                       Inl err \<Rightarrow> request_catch env [Fetched u reqOpts] err cb
                     | Inr json \<Rightarrow>
                         (case RESTv2_response env this json transformer cb of
                            (t, Inl err) \<Rightarrow> request_catch env (Fetched u reqOpts # t) err cb
                          | (t, Inr r) \<Rightarrow> (Fetched u reqOpts # t, settle (Inr r))))))"

subsection \<open>\<^verbatim>\<open>_makeAuthRequest\<close>, \<^verbatim>\<open>_makePublicRequest\<close>, \<^verbatim>\<open>_makePublicPostRequest\<close>\<close>

text \<open>
  The closure \<^verbatim>\<open>keys\<close> of \<^verbatim>\<open>_makeAuthRequest\<close>: it builds the string \<^verbatim>\<open>sigPayload\<close>, hands
  it to the signer and returns the two headers.
\<close>

definition auth_keys ::
    "platform \<Rightarrow> RESTv2_client \<Rightarrow> string \<Rightarrow> string \<Rightarrow> jsobj \<Rightarrow> event list \<times> (string \<times> string) list" where
  "auth_keys env this path n sanitizedPayload =
     (let sigPayload = ''/api/v2'' @ path @ n @ JSON_stringify env sanitizedPayload;
          sig = genAuthSig env (this_apiSecret this) sigPayload
      in ([Signed (this_apiSecret this) sigPayload],
          [(''bfx-apikey'', this_apiKey this), (''bfx-signature'', sig)]))"

text \<open>
  The three builders are \<^verbatim>\<open>async\<close>: what they throw before \<^verbatim>\<open>_request\<close> is called
  rejects the promise of the call, and no callback is called.  Each evaluates
  \<^verbatim>\<open>AbortSignal.timeout(this._timeout)\<close> while it builds the object \<^verbatim>\<open>reqOpts\<close>, in
  \<^verbatim>\<open>_makeAuthRequest\<close> after the headers of the signature are computed.
\<close>

definition RESTv2_makeAuthRequest ::
    "platform \<Rightarrow> RESTv2_client \<Rightarrow> string \<Rightarrow> jsobj \<Rightarrow> Callback \<Rightarrow> Transformer
       \<Rightarrow> event list \<times> outcome" where
  "RESTv2_makeAuthRequest env this path payload cb transformer =
     (if (this_apiKey this = [] \<or> this_apiSecret this = []) \<and> this_authToken this = []
      then (case RESTv2_cb env (Some (Err (new_Error ''missing api key or secret''))) JNull cb of
              (t, r) \<Rightarrow> (t, settle r))
      else
        (let u = this_url this @ ''/v2'' @ path;
             n = nonce env;
             sanitizedPayload = omitNil payload;
             (ts, auth) = (if this_authToken this \<noteq> []
                           then ([], [(''bfx-token'', this_authToken this)])
                           else auth_keys env this path n sanitizedPayload)
         in case AbortSignal_timeout env (this_timeout this) of
              Inl x \<Rightarrow> (ts, Rejected x)
            | Inr s \<Rightarrow>
                (case RESTv2_request env this u
                        \<lparr> http_method = ''POST'',
                          signal = s,
                          headers = [(''content-type'', ''application/json''), (''bfx-nonce'', n)]
                                    @ auth,
                          body = Some (JSON_stringify env sanitizedPayload) \<rparr>
                        transformer cb of
                   (t, out) \<Rightarrow> (ts @ t, out))))"



section \<open>Reading the events of a call\<close>


fun fetch_calls :: "event list \<Rightarrow> (string \<times> RequestInit) list" where
  "fetch_calls [] = []"
| "fetch_calls (Fetched u r # es) = (u, r) # fetch_calls es"
| "fetch_calls (e # es) = fetch_calls es"


section \<open>A platform and clients for closed examples\<close>

text \<open>
  The examples need a parser and a serialiser only on the few texts they use; both are
  tables.  The signer of the examples returns its payload, so that a signature header
  shows the string that was signed.  \<^verbatim>\<open>AbortSignal.timeout\<close> accepts the delays from \<open>0\<close> to
  \<open>2^32 - 1\<close>, as Node.js does.
\<close>

definition demo_parse :: "string \<Rightarrow> thrown + jsval" where
  "demo_parse s =
     (if s = ''[\"error\", 10010, \"ERR_RATE_LIMIT\"]''
      then Inr (JArr [JStr ''error'', JNum (Fin 10010), JStr ''ERR_RATE_LIMIT''])
      else if s = ''[\"error\", 10114, \"nonce: small\"]''
      then Inr (JArr [JStr ''error'', JNum (Fin 10114), JStr ''nonce: small''])
      else if s = ''{\"error\":\"internal\"}''
      then Inr (JObj [(''error'', JStr ''internal'')])
      else if s = ''[1, 2]''
      then Inr (JArr [JNum (Fin 1), JNum (Fin 2)])
      else Inl (Err (new_Error ''SyntaxError'')))"

definition demo_stringify :: "jsobj \<Rightarrow> string" where
  "demo_stringify obj =
     (if obj = [] then ''{}''
      else if obj = [(''b'', JStr [])] then ''{\"b\":\"\"}''
      else ''{?}'')"

definition demo_timeout :: "int \<Rightarrow> thrown + int" where
  "demo_timeout delay =
     (if 0 \<le> delay \<and> delay \<le> 4294967295 then Inr delay
      else Inl (Err (new_Error ''RangeError: The value of delay is out of range'')))"

text \<open>
  The members of \<^verbatim>\<open>Object.prototype\<close> and of \<^verbatim>\<open>Array.prototype\<close> by name.  The accessor
  \<^verbatim>\<open>__proto__\<close> yields the prototype of the object that is read.
\<close>

definition Object_prototype_functions :: "string list" where
  "Object_prototype_functions =
     [''__defineGetter__'', ''__defineSetter__'', ''hasOwnProperty'', ''__lookupGetter__'',
      ''__lookupSetter__'', ''isPrototypeOf'', ''propertyIsEnumerable'', ''toString'',
      ''valueOf'', ''toLocaleString'']"

definition Array_prototype_functions :: "string list" where
  "Array_prototype_functions =
     [''at'', ''concat'', ''copyWithin'', ''fill'', ''find'', ''findIndex'', ''findLast'',
      ''findLastIndex'', ''lastIndexOf'', ''pop'', ''push'', ''reverse'', ''shift'',
      ''unshift'', ''slice'', ''sort'', ''splice'', ''includes'', ''indexOf'', ''join'',
      ''keys'', ''entries'', ''values'', ''forEach'', ''filter'', ''flat'', ''flatMap'',
      ''map'', ''every'', ''some'', ''reduce'', ''reduceRight'', ''toReversed'', ''toSorted'',
      ''toSpliced'', ''with'', ''toLocaleString'', ''toString'']"

definition Object_prototype_get :: "string \<Rightarrow> jsval" where
  "Object_prototype_get k =
     (if k = ''constructor'' then JBuiltin ''Object''
      else if k \<in> set Object_prototype_functions then JBuiltin (''Object.prototype.'' @ k)
      else JUndefined)"

definition demo_inherited :: "jsval option \<Rightarrow> string \<Rightarrow> jsval" where
  "demo_inherited p k =
     (case p of
        None \<Rightarrow> if k = ''__proto__'' then JBuiltin ''Object.prototype''
                else Object_prototype_get k
      | Some (JObj ps) \<Rightarrow>
          (case map_of ps k of
             Some v \<Rightarrow> v
           | None \<Rightarrow> if k = ''__proto__'' then JObj ps else Object_prototype_get k)
      | Some (JArr xs) \<Rightarrow>
          if is_array_index k \<and> dec_val k < length xs then xs ! dec_val k
          else if k = ''length'' then JNum (Fin (of_nat (length xs)))
          else if k = ''__proto__'' then JArr xs
          else if k = ''constructor'' then JBuiltin ''Array''
          else if k \<in> set Array_prototype_functions then JBuiltin (''Array.prototype.'' @ k)
          else Object_prototype_get k
      | Some JNull \<Rightarrow> JUndefined
      | Some v \<Rightarrow> Object_prototype_get k)"

definition demo_platform :: platform where
  "demo_platform = \<lparr> JSON_parse = demo_parse, JSON_stringify = demo_stringify,
                       genAuthSig = (\<lambda>secret payload. payload), nonce = ''1'',
                       ToString = (\<lambda>v. ''?''),
                       AbortSignal_timeout = demo_timeout,
                       Get_inherited = demo_inherited \<rparr>"

text \<open>A transport that answers every request with the same response.\<close>

definition respond :: "Response \<Rightarrow> FetchFn" where
  "respond resp u r = Inr resp"

definition demo_client :: "string \<Rightarrow> string \<Rightarrow> bool \<Rightarrow> FetchFn \<Rightarrow> RESTv2_client" where
  "demo_client k s tf f =
     \<lparr> this_url = API_URL, this_apiKey = k, this_apiSecret = s, this_authToken = [],
       this_company = [], this_transform = tf, this_affCode = JUndefined,
       this_timeout = BASE_TIMEOUT, this_fetch = f \<rparr>"






definition GET_opts :: RequestInit where
  "GET_opts = \<lparr> http_method = ''GET'', signal = BASE_TIMEOUT, headers = [], body = None \<rparr>"


section \<open>Calls through the pipeline\<close>










section \<open>The currency-list merger\<close>





















section \<open>Constructor-time validation\<close>

lemma Number_isInteger_of_int: "Number_isInteger (JNum (Fin (of_int z)))"
  by simp

lemma not_integer_three_halves: "\<not> Number_isInteger (JNum (Fin (3 / 2)))"
proof -
  have "\<lfloor>3 / 2 :: rat\<rfloor> = 1" by code_simp
  then show ?thesis by simp
qed

text \<open>
  C5 (counterexample).  The claim lets construction throw for every supplied timeout
  that is not a positive integer.  The guard of \<^verbatim>\<open>_checkOpts\<close> is
  \<^verbatim>\<open>Number.isInteger\<close> alone: with the timeout \<open>0\<close> or \<open>-5\<close> the constructor returns
  a client, whose \<^verbatim>\<open>_timeout\<close> is that number.
\<close>

theorem RESTv2_nonpositive_timeout_accepted:
  "new_RESTv2 no_network (no_opts\<lparr>timeout := JNum (Fin 0)\<rparr>)
     = Inr ((demo_client [] [] False no_network)\<lparr>this_timeout := 0\<rparr>)
   \<and> new_RESTv2 no_network (no_opts\<lparr>timeout := JNum (Fin (- 5))\<rparr>)
     = Inr ((demo_client [] [] False no_network)\<lparr>this_timeout := - 5\<rparr>)"
  by (simp add: new_RESTv2_def RESTv2_checkOpts_def no_opts_def is_nil_def demo_client_def
        str_or_def)

text \<open>
  C5 (amended).  A timeout that is supplied (neither \<^verbatim>\<open>undefined\<close> nor \<^verbatim>\<open>null\<close>) and
  is not an integer makes the constructor throw \<^verbatim>\<open>ERR_TIMEOUT_DATA_TYPE_ERROR\<close>
  synchronously; every integer timeout, whatever its sign, is accepted and stored;
  with no timeout supplied construction succeeds with the default of 15000 ms.
\<close>

theorem RESTv2_timeout_validation:
  "(\<not> is_nil (timeout opts) \<and> \<not> Number_isInteger (timeout opts)
      \<longrightarrow> new_RESTv2 gf opts = Inl (new_Error ''ERR_TIMEOUT_DATA_TYPE_ERROR''))
   \<and> (Number_isInteger (timeout opts)
      \<longrightarrow> (\<exists>c. new_RESTv2 gf opts = Inr c
               \<and> timeout opts = JNum (Fin (of_int (this_timeout c)))))
   \<and> (is_nil (timeout opts)
      \<longrightarrow> (\<exists>c. new_RESTv2 gf opts = Inr c \<and> this_timeout c = BASE_TIMEOUT))"
proof (intro conjI impI)
  assume "\<not> is_nil (timeout opts) \<and> \<not> Number_isInteger (timeout opts)"
  then show "new_RESTv2 gf opts = Inl (new_Error ''ERR_TIMEOUT_DATA_TYPE_ERROR'')"
    by (simp add: new_RESTv2_def RESTv2_checkOpts_def)
next
  assume int: "Number_isInteger (timeout opts)"
  then obtain n :: int where n: "timeout opts = JNum (Fin (of_int n))"
    by (cases "timeout opts" rule: Number_isInteger.cases) auto
  then show "\<exists>c. new_RESTv2 gf opts = Inr c
      \<and> timeout opts = JNum (Fin (of_int (this_timeout c)))"
    by (simp add: new_RESTv2_def RESTv2_checkOpts_def)
next
  assume nil: "is_nil (timeout opts)"
  then have "\<not> Number_isInteger (timeout opts)"
    by (auto simp: is_nil_def)
  with nil show "\<exists>c. new_RESTv2 gf opts = Inr c \<and> this_timeout c = BASE_TIMEOUT"
    by (simp add: new_RESTv2_def RESTv2_checkOpts_def)
qed

theorem RESTv2_timeout_validation_witness:
  "new_RESTv2 no_network (no_opts\<lparr>timeout := JNum (Fin (3 / 2))\<rparr>)
     = Inl (new_Error ''ERR_TIMEOUT_DATA_TYPE_ERROR'')
   \<and> (\<exists>c. new_RESTv2 no_network (no_opts\<lparr>timeout := JNum (Fin (of_int 5000))\<rparr>) = Inr c
          \<and> this_timeout c = 5000)
   \<and> (\<exists>c. new_RESTv2 no_network no_opts = Inr c \<and> this_timeout c = BASE_TIMEOUT)"
proof -
  have a: "\<not> is_nil (timeout (no_opts\<lparr>timeout := JNum (Fin (3 / 2))\<rparr>))
           \<and> \<not> Number_isInteger (timeout (no_opts\<lparr>timeout := JNum (Fin (3 / 2))\<rparr>))"
    using not_integer_three_halves by (simp add: is_nil_def)
  have b: "Number_isInteger (timeout (no_opts\<lparr>timeout := JNum (Fin (of_int 5000))\<rparr>))"
    by simp
  have c: "is_nil (timeout no_opts)"
    by (simp add: is_nil_def no_opts_def)
  from a RESTv2_timeout_validation [of "no_opts\<lparr>timeout := JNum (Fin (3 / 2))\<rparr>" no_network]
  have 1: "new_RESTv2 no_network (no_opts\<lparr>timeout := JNum (Fin (3 / 2))\<rparr>)
     = Inl (new_Error ''ERR_TIMEOUT_DATA_TYPE_ERROR'')"
    by blast
  from b RESTv2_timeout_validation [of "no_opts\<lparr>timeout := JNum (Fin (of_int 5000))\<rparr>" no_network]
  have 2: "\<exists>c. new_RESTv2 no_network (no_opts\<lparr>timeout := JNum (Fin (of_int 5000))\<rparr>) = Inr c
          \<and> this_timeout c = 5000"
    by auto
  from c RESTv2_timeout_validation [of no_opts no_network]
  have 3: "\<exists>c. new_RESTv2 no_network no_opts = Inr c \<and> this_timeout c = BASE_TIMEOUT"
    by blast
  from 1 2 3 show ?thesis by blast
qed


section \<open>Events of the pipeline\<close>











section \<open>Reading and writing objects\<close>










section \<open>Nil-stripping and the string that is signed\<close>








section \<open>Missing credentials\<close>

lemma enrich_new_Error: "enrich (new_Error m) = new_Error m"
  by (simp add: enrich_def nonce_too_small_def new_Error_def)

text \<open>
  C2.  A call of \<^verbatim>\<open>_makeAuthRequest\<close> on a client that has neither key and secret nor
  an auth token fails with the error \<^verbatim>\<open>missing api key or secret\<close>: the promise is
  rejected with it, or it is handed to the callback.  The transport is not called, and the
  outcome does not depend on the transport.
\<close>

theorem makeAuthRequest_missing_credentials:
  assumes "(this_apiKey this = [] \<or> this_apiSecret this = []) \<and> this_authToken this = []"
  shows "fetch_calls (fst (RESTv2_makeAuthRequest env this p payload cb tr)) = []
   \<and> RESTv2_makeAuthRequest env (this\<lparr>this_fetch := g\<rparr>) p payload cb tr
       = RESTv2_makeAuthRequest env this p payload cb tr
   \<and> (\<forall>f. cb = Callable f \<longrightarrow>
         RESTv2_makeAuthRequest env this p payload cb tr
           = ([Called (Some (Err (new_Error ''missing api key or secret''))) JUndefined],
              settle (f (Some (Err (new_Error ''missing api key or secret''))) JUndefined)))
   \<and> ((\<forall>f. cb \<noteq> Callable f) \<longrightarrow>
         RESTv2_makeAuthRequest env this p payload cb tr
           = ([], Rejected (Err (new_Error ''missing api key or secret''))))"
  using assms
  by (cases cb) (simp_all add: RESTv2_makeAuthRequest_def RESTv2_cb_def enrich_new_Error)

theorem makeAuthRequest_missing_credentials_witness:
  "RESTv2_makeAuthRequest demo_platform (demo_client [] [] False no_network)
      ''/auth/r/wallets'' [] NoCallback NoTransformer
    = ([], Rejected (Err (new_Error ''missing api key or secret'')))"
proof -
  have "(this_apiKey (demo_client [] [] False no_network) = []
          \<or> this_apiSecret (demo_client [] [] False no_network) = [])
        \<and> this_authToken (demo_client [] [] False no_network) = []"
    by (simp add: demo_client_def)
  from makeAuthRequest_missing_credentials [OF this, of demo_platform "''/auth/r/wallets''"
      "[]" NoCallback NoTransformer]
  show ?thesis by simp
qed

section \<open>Classification of HTTP errors\<close>

text \<open>
  C3.  For a response with status \<open>s\<close>, status text \<open>t\<close> and raw body \<open>b\<close> the
  classifier returns an error with the message \<^verbatim>\<open>HTTP code s t\<close>, with \<open>status\<close> and
  \<open>statustext\<close> set to \<open>s\<close> and \<open>t\<close>, and with \<open>code\<close> and \<open>response\<close> by the
  shape of \<open>b\<close>: elements 1 and 2 of a parsed array of length at least 3; otherwise the
  parsed value as the response and no code; the raw string when \<open>b\<close> does not parse.
\<close>

theorem apiError_classification:
  "message (RESTv2_apiError env resp b)
     = ''HTTP code '' @ show_nat (resp_status resp) @ '' '' @ resp_statusText resp
   \<and> status (RESTv2_apiError env resp b) = Some (resp_status resp)
   \<and> statustext (RESTv2_apiError env resp b) = Some (resp_statusText resp)
   \<and> (\<forall>xs. JSON_parse env b = Inr (JArr xs) \<and> 3 \<le> length xs
         \<longrightarrow> code (RESTv2_apiError env resp b) = Some (xs ! 1)
           \<and> response (RESTv2_apiError env resp b) = Some (xs ! 2))
   \<and> (\<forall>v. JSON_parse env b = Inr v \<and> \<not> (\<exists>xs. v = JArr xs \<and> 3 \<le> length xs)
         \<longrightarrow> code (RESTv2_apiError env resp b) = None
           \<and> response (RESTv2_apiError env resp b) = Some v)
   \<and> (\<forall>e. JSON_parse env b = Inl e
         \<longrightarrow> code (RESTv2_apiError env resp b) = None
           \<and> response (RESTv2_apiError env resp b) = Some (JStr b))"
  by (auto simp: RESTv2_apiError_def Let_def new_Error_def arr_at_def split: sum.splits jsval.splits)

theorem apiError_classification_witness:
  "code (RESTv2_apiError demo_platform
           \<lparr> resp_ok = False, resp_status = 400, resp_statusText = ''Bad Request'',
             resp_text = Inr ''[\"error\", 10010, \"ERR_RATE_LIMIT\"]'' \<rparr>
           ''[\"error\", 10010, \"ERR_RATE_LIMIT\"]'') = Some (JNum (Fin 10010))
   \<and> response (RESTv2_apiError demo_platform
           \<lparr> resp_ok = False, resp_status = 400, resp_statusText = ''Bad Request'',
             resp_text = Inr ''[\"error\", 10010, \"ERR_RATE_LIMIT\"]'' \<rparr>
           ''[\"error\", 10010, \"ERR_RATE_LIMIT\"]'') = Some (JStr ''ERR_RATE_LIMIT'')
   \<and> response (RESTv2_apiError demo_platform
           \<lparr> resp_ok = False, resp_status = 500, resp_statusText = ''Internal Server Error'',
             resp_text = Inr ''{\"error\":\"internal\"}'' \<rparr>
           ''{\"error\":\"internal\"}'') = Some (JObj [(''error'', JStr ''internal'')])
   \<and> response (RESTv2_apiError demo_platform
           \<lparr> resp_ok = False, resp_status = 502, resp_statusText = ''Bad Gateway'',
             resp_text = Inr ''Bad Gateway'' \<rparr>
           ''Bad Gateway'') = Some (JStr ''Bad Gateway'')"
proof -
  let ?r1 = "\<lparr> resp_ok = False, resp_status = 400, resp_statusText = ''Bad Request'',
             resp_text = Inr ''[\"error\", 10010, \"ERR_RATE_LIMIT\"]'' \<rparr>"
  let ?r2 = "\<lparr> resp_ok = False, resp_status = 500, resp_statusText = ''Internal Server Error'',
             resp_text = Inr ''{\"error\":\"internal\"}'' \<rparr>"
  let ?r3 = "\<lparr> resp_ok = False, resp_status = 502, resp_statusText = ''Bad Gateway'',
             resp_text = Inr ''Bad Gateway'' \<rparr>"
  have p1: "JSON_parse demo_platform ''[\"error\", 10010, \"ERR_RATE_LIMIT\"]''
          = Inr (JArr [JStr ''error'', JNum (Fin 10010), JStr ''ERR_RATE_LIMIT''])
        \<and> 3 \<le> length [JStr ''error'', JNum (Fin 10010), JStr ''ERR_RATE_LIMIT'']"
    by (simp add: demo_platform_def demo_parse_def)
  have p2: "JSON_parse demo_platform ''{\"error\":\"internal\"}''
          = Inr (JObj [(''error'', JStr ''internal'')])
        \<and> \<not> (\<exists>xs. JObj [(''error'', JStr ''internal'')] = JArr xs \<and> 3 \<le> length xs)"
    by (simp add: demo_platform_def demo_parse_def)
  have p3: "JSON_parse demo_platform ''Bad Gateway'' = Inl (Err (new_Error ''SyntaxError''))"
    by (simp add: demo_platform_def demo_parse_def)
  from p1 apiError_classification [of demo_platform ?r1 "''[\"error\", 10010, \"ERR_RATE_LIMIT\"]''"]
  have 1: "code (RESTv2_apiError demo_platform ?r1 ''[\"error\", 10010, \"ERR_RATE_LIMIT\"]'')
             = Some (JNum (Fin 10010))
        \<and> response (RESTv2_apiError demo_platform ?r1 ''[\"error\", 10010, \"ERR_RATE_LIMIT\"]'')
             = Some (JStr ''ERR_RATE_LIMIT'')"
    by simp
  from p2 apiError_classification [of demo_platform ?r2 "''{\"error\":\"internal\"}''"]
  have 2: "response (RESTv2_apiError demo_platform ?r2 ''{\"error\":\"internal\"}'')
             = Some (JObj [(''error'', JStr ''internal'')])"
    by blast
  from p3 apiError_classification [of demo_platform ?r3 "''Bad Gateway''"]
  have 3: "response (RESTv2_apiError demo_platform ?r3 ''Bad Gateway'')
             = Some (JStr ''Bad Gateway'')"
    by blast
  from 1 2 3 show ?thesis by blast
qed

section \<open>The transform step\<close>

lemma map_new_all:
  "\<forall>x\<in>set xs. f x = Inr (g x) \<Longrightarrow> map_new f xs = Inr (map g xs)"
  by (induction xs) auto

lemma array_of_arrays_nonempty:
  "array_of_arrays d \<Longrightarrow> truthy d \<and> \<not> empty_array d"
  by (cases d) (auto simp: arr_at_def)

text \<open>
  C4.  The transform step returns the datum unchanged when the transform flag is off or
  the transformer is \<^verbatim>\<open>null\<close>.  With the flag on and a class as transformer, a falsy
  or empty datum gives the empty array, an array whose first element is an array gives one
  constructed instance per row, and any other datum gives the one instance constructed
  from all of it.  A plain function is applied to the datum and its result is returned as
  it is.
\<close>

theorem transform_step_cases:
  "(\<not> this_transform this \<or> tr = NoTransformer \<longrightarrow> transform_step this d tr = Inr d)
   \<and> (this_transform this \<and> (\<not> truthy d \<or> empty_array d)
        \<longrightarrow> transform_step this d (ModelClass M) = Inr (JArr []))
   \<and> (this_transform this \<and> array_of_arrays d
          \<and> (\<forall>row\<in>set (elems d). M row this = Inr (inst row))
        \<longrightarrow> transform_step this d (ModelClass M) = Inr (JArr (map inst (elems d))))
   \<and> (this_transform this \<and> truthy d \<and> \<not> empty_array d \<and> \<not> array_of_arrays d
        \<longrightarrow> transform_step this d (ModelClass M) = M d this)
   \<and> (this_transform this \<longrightarrow> transform_step this d (PlainFunction f) = f d)"
proof (intro conjI impI)
  assume "\<not> this_transform this \<or> tr = NoTransformer"
  then show "transform_step this d tr = Inr d"
    by (auto simp: transform_step_def RESTv2_doTransform_def)
next
  assume "this_transform this \<and> (\<not> truthy d \<or> empty_array d)"
  then show "transform_step this d (ModelClass M) = Inr (JArr [])"
    by (auto simp: transform_step_def RESTv2_doTransform_def RESTv2_classTransform_def)
next
  assume a: "this_transform this \<and> array_of_arrays d
          \<and> (\<forall>row\<in>set (elems d). M row this = Inr (inst row))"
  then have "map_new (\<lambda>row. M row this) (elems d) = Inr (map inst (elems d))"
    by (intro map_new_all) simp
  with a array_of_arrays_nonempty [of d]
  show "transform_step this d (ModelClass M) = Inr (JArr (map inst (elems d)))"
    by (simp add: transform_step_def RESTv2_doTransform_def RESTv2_classTransform_def)
next
  assume "this_transform this \<and> truthy d \<and> \<not> empty_array d \<and> \<not> array_of_arrays d"
  then show "transform_step this d (ModelClass M) = M d this"
    by (simp add: transform_step_def RESTv2_doTransform_def RESTv2_classTransform_def)
next
  assume "this_transform this"
  then show "transform_step this d (PlainFunction f) = f d"
    by (simp add: transform_step_def RESTv2_doTransform_def)
qed

text \<open>
  The model class of the examples keeps the row it is constructed from, as the class
  \<^verbatim>\<open>MockModel\<close> of the tests does.
\<close>

theorem transform_step_cases_witness:
  "transform_step (demo_client [] [] False no_network)
       (JArr [JNum (Fin 1), JNum (Fin 2)])
       (ModelClass (\<lambda>row c. Inr (JObj [(''data'', row)])))
     = Inr (JArr [JNum (Fin 1), JNum (Fin 2)])
   \<and> transform_step (demo_client [] [] True no_network) JNull
       (ModelClass (\<lambda>row c. Inr (JObj [(''data'', row)]))) = Inr (JArr [])
   \<and> transform_step (demo_client [] [] True no_network)
       (JArr [JArr [JNum (Fin 1), JNum (Fin 2)], JArr [JNum (Fin 3), JNum (Fin 4)]])
       (ModelClass (\<lambda>row c. Inr (JObj [(''data'', row)])))
     = Inr (JArr [JObj [(''data'', JArr [JNum (Fin 1), JNum (Fin 2)])],
                  JObj [(''data'', JArr [JNum (Fin 3), JNum (Fin 4)])]])
   \<and> transform_step (demo_client [] [] True no_network)
       (JArr [JNum (Fin 1), JNum (Fin 2), JNum (Fin 3)])
       (ModelClass (\<lambda>row c. Inr (JObj [(''data'', row)])))
     = Inr (JObj [(''data'', JArr [JNum (Fin 1), JNum (Fin 2), JNum (Fin 3)])])
   \<and> transform_step (demo_client [] [] True no_network)
       (JArr [JNum (Fin 1), JNum (Fin 2)])
       (PlainFunction (\<lambda>d. Inr (JObj [(''transformed'', d)])))
     = Inr (JObj [(''transformed'', JArr [JNum (Fin 1), JNum (Fin 2)])])"
proof -
  let ?M = "\<lambda>(row :: jsval) (c :: RESTv2_client). Inr (JObj [(''data'', row)]) :: thrown + jsval"
  let ?inst = "\<lambda>row. JObj [(''data'', row)]"
  let ?on = "demo_client [] [] True no_network"
  let ?off = "demo_client [] [] False no_network"
  let ?d2 = "JArr [JArr [JNum (Fin 1), JNum (Fin 2)], JArr [JNum (Fin 3), JNum (Fin 4)]]"
  let ?d1 = "JArr [JNum (Fin 1), JNum (Fin 2), JNum (Fin 3)]"
  have off: "\<not> this_transform ?off \<or> ModelClass ?M = NoTransformer"
    by (simp add: demo_client_def)
  have on: "this_transform ?on"
    by (simp add: demo_client_def)
  have falsy: "this_transform ?on \<and> (\<not> truthy JNull \<or> empty_array JNull)"
    by (simp add: demo_client_def)
  have rows: "this_transform ?on \<and> array_of_arrays ?d2
        \<and> (\<forall>row\<in>set (elems ?d2). ?M row ?on = Inr (?inst row))"
    by (simp add: demo_client_def arr_at_def)
  have flat: "this_transform ?on \<and> truthy ?d1 \<and> \<not> empty_array ?d1 \<and> \<not> array_of_arrays ?d1"
    by (simp add: demo_client_def arr_at_def)
  from off transform_step_cases [of ?off "ModelClass ?M" "JArr [JNum (Fin 1), JNum (Fin 2)]"]
  have 1: "transform_step ?off (JArr [JNum (Fin 1), JNum (Fin 2)]) (ModelClass ?M)
             = Inr (JArr [JNum (Fin 1), JNum (Fin 2)])"
    by blast
  from falsy transform_step_cases [of ?on _ JNull ?M]
  have 2: "transform_step ?on JNull (ModelClass ?M) = Inr (JArr [])"
    by blast
  from rows transform_step_cases [of ?on _ ?d2 ?M ?inst]
  have 3: "transform_step ?on ?d2 (ModelClass ?M) = Inr (JArr (map ?inst (elems ?d2)))"
    by blast
  from flat transform_step_cases [of ?on _ ?d1 ?M]
  have 4: "transform_step ?on ?d1 (ModelClass ?M) = ?M ?d1 ?on"
    by blast
  from on transform_step_cases [of ?on _ "JArr [JNum (Fin 1), JNum (Fin 2)]" _ _
      "\<lambda>d. Inr (JObj [(''transformed'', d)])"]
  have 5: "transform_step ?on (JArr [JNum (Fin 1), JNum (Fin 2)])
             (PlainFunction (\<lambda>d. Inr (JObj [(''transformed'', d)])))
           = Inr (JObj [(''transformed'', JArr [JNum (Fin 1), JNum (Fin 2)])])"
    by blast
  from 1 2 3 4 5 show ?thesis by simp
qed

section \<open>Enrichment of the message\<close>

lemma error_apiError: "error (RESTv2_apiError env resp raw) = None"
  by (simp add: RESTv2_apiError_def Let_def new_Error_def split: sum.splits jsval.splits)

lemma enrich_apiError: "enrich (RESTv2_apiError env resp raw) = RESTv2_apiError env resp raw"
  by (simp add: enrich_def nonce_too_small_def error_apiError)

lemma enrich_fields:
  "status (enrich e) = status e \<and> statustext (enrich e) = statustext e
   \<and> code (enrich e) = code e \<and> response (enrich e) = response e \<and> error (enrich e) = error e
   \<and> (\<exists>s. message (enrich e) = message e @ s)"
  by (simp add: enrich_def)

lemma enrich_fires:
  "error e = Some (JArr [JStr ''error'', JNum (Fin 10114), d])
     \<Longrightarrow> message (enrich e) = message e @ NONCE_HELP"
  by (simp add: enrich_def nonce_too_small_def nonce_code_def arr_at_def)

lemma nonce_error_at_failing_input:
  "RESTv2_request demo_platform
     (demo_client [] [] False
        (respond \<lparr> resp_ok = False, resp_status = 500,
                   resp_statusText = ''Internal Server Error'',
                   resp_text = Inr ''[\"error\", 10114, \"nonce: small\"]'' \<rparr>))
     ''u'' GET_opts NoTransformer NoCallback
   = ([Fetched ''u'' GET_opts],
      Rejected (Err \<lparr> message = ''HTTP code 500 Internal Server Error'', status = Some 500,
                      statustext = Some ''Internal Server Error'',
                      code = Some (JNum (Fin 10114)), response = Some (JStr ''nonce: small''),
                      error = None \<rparr>))"
  by (simp add: RESTv2_request_def demo_client_def respond_def request_catch_def RESTv2_cb_def
        enrich_apiError)
     (simp add: RESTv2_apiError_def demo_platform_def demo_parse_def new_Error_def arr_at_def
        show_nat.simps char_of_eq_iff)

text \<open>
  C6 (the code at the failing input).  The server answers with status 500 and the error
  triple whose code is 10114.  \<^verbatim>\<open>_apiError\<close> stores the code in \<open>code\<close>, while the
  enrichment in \<^verbatim>\<open>_cb\<close> reads the property \<open>error\<close>, which no error of the pipeline
  has: the error is surfaced with the bare message, without the help link.  The same holds
  of every error that \<^verbatim>\<open>_apiError\<close> builds, whatever the response.
\<close>

theorem nonce_too_small_not_enriched:
  "RESTv2_request demo_platform
     (demo_client [] [] False
        (respond \<lparr> resp_ok = False, resp_status = 500,
                   resp_statusText = ''Internal Server Error'',
                   resp_text = Inr ''[\"error\", 10114, \"nonce: small\"]'' \<rparr>))
     ''u'' GET_opts NoTransformer NoCallback
   = ([Fetched ''u'' GET_opts],
      Rejected (Err \<lparr> message = ''HTTP code 500 Internal Server Error'', status = Some 500,
                      statustext = Some ''Internal Server Error'',
                      code = Some (JNum (Fin 10114)), response = Some (JStr ''nonce: small''),
                      error = None \<rparr>))
   \<and> message (enrich (RESTv2_apiError env resp raw))
       = ''HTTP code '' @ show_nat (resp_status resp) @ '' '' @ resp_statusText resp"
proof (rule conjI)
  show "message (enrich (RESTv2_apiError env resp raw))
       = ''HTTP code '' @ show_nat (resp_status resp) @ '' '' @ resp_statusText resp"
    by (simp add: enrich_apiError)
       (simp add: RESTv2_apiError_def Let_def new_Error_def split: sum.splits jsval.splits)
qed (rule nonce_error_at_failing_input)

section \<open>Propagation of errors\<close>


















lemma enrich_fields_all:
  "status (enrich e) = status e \<and> statustext (enrich e) = statustext e
   \<and> code (enrich e) = code e \<and> response (enrich e) = response e \<and> error (enrich e) = error e
   \<and> (\<exists>s. message (enrich e) = message e @ s)"
  by (simp add: enrich_def)




section \<open>Calls with a callback\<close>




section \<open>Keys in the order of their first occurrence\<close>































section \<open>Array indices and their numeric order\<close>
















section \<open>Evaluating the merger on the examples\<close>












section \<open>The records of the merged currency list\<close>














section \<open>Explorer inheritance\<close>
















end
